theory Spec2Isabelle
  imports Complex_Main "HOL-Library.AList" "HOL-Library.Word"
begin

section \<open>DeepShield: the heuristic text and image scorers of backend/main.py\<close>

text \<open>
  The two request handlers \<^verbatim>\<open>analyze_text\<close> and \<^verbatim>\<open>analyze_image\<close> are embedded as
  functions into \<open>error + AnalysisResponse\<close>: every \<^verbatim>\<open>raise\<close> of the source is an \<open>Inl\<close>.

  Conventions of the embedding.
  \<^item> A Python \<^verbatim>\<open>str\<close> is a list of Unicode code points (\<open>nat\<close>); a literal of the source
    is written \<open>py_str ''...''\<close>.
  \<^item> What Python's Unicode tables decide (\<^verbatim>\<open>str.lower\<close>, which characters are white space
    for \<^verbatim>\<open>strip\<close>/\<^verbatim>\<open>split\<close>, which are word characters for \<^verbatim>\<open>\w\<close>) is a parameter
    \<open>U\<close> of the model; \<open>ascii\<close> is the instance that agrees with Python on code points
    below 128 and is used to evaluate the model at ASCII inputs.
  \<^item> The value drawn by \<^verbatim>\<open>random.uniform(-0.05, 0.05)\<close> is the parameter \<open>jitter\<close>.
  \<^item> Python floats are idealised as \<open>real\<close>: arithmetic is exact, rounding of binary
    floating point is not modelled. Three places of the source are sensitive to it: the test
    \<^verbatim>\<open>variance < 20\<close> of text signal 1, the test \<^verbatim>\<open>abs(aspect_ratio - ratio) < 0.05\<close> of image
    signal 3, and \<^verbatim>\<open>int(ai_probability * 100)\<close>. Where the exact value lies on the threshold
    (sentences of 1, 1, 1, 4, 4, 8, 8, 9 and 15 words have variance exactly 20; an image of
    18 by 25 pixels has ratio 0.72 = 0.67 + 0.05) the floats of the program fall just below it
    and the program adds the AI points that the model does not add; the truncated confidence
    of the program can be one less than the model's before it is clamped. No property below
    is stated at such an input, and the clamped confidence bands hold either way.
  \<^item> True division is fallible: dividing by zero is the error \<open>ZeroDivisionError\<close>.
  \<^item> The image library (PIL) is a parameter: \<open>decode\<close> maps the uploaded bytes to the
    decoded RGB image or to the text of the exception it raised.
\<close>

subsection \<open>Python strings\<close>

type_synonym codepoint = nat
type_synonym str = "codepoint list"

definition py_str :: "string \<Rightarrow> str" where
  "py_str s = map of_char s"

record unicode =
  lower :: "str \<Rightarrow> str"
  isspace :: "codepoint \<Rightarrow> bool"
  isword :: "codepoint \<Rightarrow> bool"

text \<open>\<^verbatim>\<open>s.startswith(p)\<close>\<close>

definition startswith :: "str \<Rightarrow> str \<Rightarrow> bool" where
  "startswith s p = (take (length p) s = p)"

text \<open>\<^verbatim>\<open>sub in s\<close>\<close>

fun contains :: "str \<Rightarrow> str \<Rightarrow> bool" where
  "contains [] sub = (sub = [])"
| "contains (c # cs) sub = (startswith (c # cs) sub \<or> contains cs sub)"

text \<open>
  \<^verbatim>\<open>s.count(sub)\<close>: the number of non-overlapping occurrences, found from left to right.
  The second argument counts the characters still covered by the occurrence found last.
\<close>

fun count_from :: "str \<Rightarrow> nat \<Rightarrow> str \<Rightarrow> nat" where
  "count_from sub k [] = (if sub = [] then 1 else 0)"
| "count_from sub (Suc k) (c # cs) = count_from sub k cs"
| "count_from sub 0 (c # cs) =
     (if startswith (c # cs) sub then 1 + count_from sub (length sub - 1) cs
      else count_from sub 0 cs)"

definition count :: "str \<Rightarrow> str \<Rightarrow> nat" where
  "count s sub = count_from sub 0 s"

text \<open>\<^verbatim>\<open>s.strip()\<close>\<close>

definition strip :: "unicode \<Rightarrow> str \<Rightarrow> str" where
  "strip U s = rev (dropWhile (isspace U) (rev (dropWhile (isspace U) s)))"

text \<open>
  The maximal non-empty runs of characters satisfying \<open>keep\<close>, in order. With
  \<open>keep\<close> = "not white space" this is \<^verbatim>\<open>s.split()\<close>; with \<open>keep\<close> = "word character" it is
  \<^verbatim>\<open>re.findall(r'\b\w+\b', s)\<close>.
\<close>

fun runs :: "(codepoint \<Rightarrow> bool) \<Rightarrow> str \<Rightarrow> str \<Rightarrow> str list" where
  "runs keep cur [] = (if cur = [] then [] else [rev cur])"
| "runs keep cur (c # cs) =
     (if keep c then runs keep (c # cur) cs
      else if cur = [] then runs keep [] cs
      else rev cur # runs keep [] cs)"

definition split :: "unicode \<Rightarrow> str \<Rightarrow> str list" where
  "split U s = runs (\<lambda>c. \<not> isspace U c) [] s"

definition findall_words :: "unicode \<Rightarrow> str \<Rightarrow> str list" where
  "findall_words U s = runs (isword U) [] s"

text \<open>
  \<^verbatim>\<open>re.split(r'[.!?]+', s)\<close>: the pieces between the maximal runs of separators,
  empty pieces at both ends included.
\<close>

fun re_split_from :: "(codepoint \<Rightarrow> bool) \<Rightarrow> str \<Rightarrow> bool \<Rightarrow> str \<Rightarrow> str list" where
  "re_split_from sep cur in_sep [] = [rev cur]"
| "re_split_from sep cur in_sep (c # cs) =
     (if sep c then
        (if in_sep then re_split_from sep [] True cs
         else rev cur # re_split_from sep [] True cs)
      else re_split_from sep (c # cur) False cs)"

definition sentence_end :: "codepoint \<Rightarrow> bool" where
  "sentence_end c = (c \<in> set (py_str ''.!?''))"

definition re_split_sentences :: "str \<Rightarrow> str list" where
  "re_split_sentences s = re_split_from sentence_end [] False s"

text \<open>\<^verbatim>\<open>sep.join(xs)\<close>\<close>

fun join :: "str \<Rightarrow> str list \<Rightarrow> str" where
  "join sep [] = []"
| "join sep [x] = x"
| "join sep (x # y # ys) = x @ sep @ join sep (y # ys)"

text \<open>Python's tables on the ASCII range.\<close>

definition ascii_lower :: "codepoint \<Rightarrow> codepoint" where
  "ascii_lower c = (if 65 \<le> c \<and> c \<le> 90 then c + 32 else c)"

definition ascii_isspace :: "codepoint \<Rightarrow> bool" where
  "ascii_isspace c = (c = 32 \<or> (9 \<le> c \<and> c \<le> 13) \<or> (28 \<le> c \<and> c \<le> 31))"

definition ascii_isword :: "codepoint \<Rightarrow> bool" where
  "ascii_isword c =
     ((48 \<le> c \<and> c \<le> 57) \<or> (65 \<le> c \<and> c \<le> 90) \<or> c = 95 \<or> (97 \<le> c \<and> c \<le> 122))"

definition ascii :: unicode where
  "ascii = \<lparr>lower = map ascii_lower, isspace = ascii_isspace, isword = ascii_isword\<rparr>"

subsection \<open>Errors, numbers and the response\<close>

datatype error =
  HTTPException nat str
| ZeroDivisionError

record AnalysisResponse =
  status :: str
  confidence :: int

text \<open>\<^verbatim>\<open>a / b\<close>\<close>

definition truediv :: "real \<Rightarrow> real \<Rightarrow> error + real" where
  "truediv a b = (if b = 0 then Inl ZeroDivisionError else Inr (a / b))"

text \<open>\<^verbatim>\<open>int(x)\<close> on a float: truncation towards zero.\<close>

definition py_int :: "real \<Rightarrow> int" where
  "py_int x = (if 0 \<le> x then \<lfloor>x\<rfloor> else \<lceil>x\<rceil>)"

subsection \<open>The text scorer\<close>

record TextRequest =
  "text" :: str

record tally =
  ai_indicators :: nat
  human_indicators :: nat

text \<open>1. Sentence structure analysis.\<close>

definition sentences :: "unicode \<Rightarrow> str \<Rightarrow> str list" where
  "sentences U txt = map (strip U) (filter (\<lambda>s. strip U s \<noteq> []) (re_split_sentences txt))"

definition sentence_structure :: "unicode \<Rightarrow> str \<Rightarrow> tally \<Rightarrow> error + tally" where
  "sentence_structure U txt t =
     (if 3 \<le> length (sentences U txt) then
        (let sentence_lengths = map (\<lambda>s. length (split U s)) (sentences U txt) in
         case truediv (real (sum_list sentence_lengths)) (real (length sentence_lengths)) of
           Inl e \<Rightarrow> Inl e
         | Inr avg_length \<Rightarrow>
            (case truediv (sum_list (map (\<lambda>x. (real x - avg_length) ^ 2) sentence_lengths))
                    (real (length sentence_lengths)) of
               Inl e \<Rightarrow> Inl e
             | Inr variance \<Rightarrow>
                 Inr (if variance < 20 then t\<lparr>ai_indicators := ai_indicators t + 2\<rparr>
                      else t\<lparr>human_indicators := human_indicators t + 1\<rparr>)))
      else Inr t)"

text \<open>2. AI-typical transition words and phrases.\<close>

definition formal_transitions :: "str list" where
  "formal_transitions = map py_str
     [''furthermore'', ''moreover'', ''in addition'', ''consequently'',
      ''therefore'', ''subsequently'', ''nevertheless'', ''additionally'',
      ''in conclusion'', ''it is important to note'', ''it should be noted'']"

definition transition_phrases :: "unicode \<Rightarrow> str \<Rightarrow> tally \<Rightarrow> error + tally" where
  "transition_phrases U txt t =
     (let formal_count = length (filter (\<lambda>phrase. contains (lower U txt) phrase) formal_transitions) in
      Inr (if 2 \<le> formal_count then t\<lparr>ai_indicators := ai_indicators t + 2\<rparr> else t))"

text \<open>3. Repetitive phrasing patterns: the dictionary \<^verbatim>\<open>common_starts\<close>.\<close>

fun common_starts :: "unicode \<Rightarrow> str list \<Rightarrow> (str \<times> nat) list \<Rightarrow> (str \<times> nat) list" where
  "common_starts U [] d = d"
| "common_starts U (sentence # rest) d =
     (let words = split U sentence in
      if 2 \<le> length words then
        (let start = lower U (join (py_str '' '') (take 2 words)) in
         common_starts U rest
           (AList.update start ((case map_of d start of None \<Rightarrow> 0 | Some n \<Rightarrow> n) + 1) d))
      else common_starts U rest d)"

definition repetitive_phrasing :: "unicode \<Rightarrow> str \<Rightarrow> tally \<Rightarrow> error + tally" where
  "repetitive_phrasing U txt t =
     Inr (if list_ex (\<lambda>(start, n). 3 \<le> n) (common_starts U (sentences U txt) [])
          then t\<lparr>ai_indicators := ai_indicators t + 2\<rparr> else t)"

text \<open>4. Hedging words.\<close>

definition hedging_words :: "str list" where
  "hedging_words = map py_str [''may'', ''might'', ''could'', ''possibly'', ''perhaps'', ''generally'']"

definition hedging :: "unicode \<Rightarrow> str \<Rightarrow> tally \<Rightarrow> error + tally" where
  "hedging U txt t =
     (let hedging_count =
            sum_list (map (\<lambda>word. count (lower U txt) (py_str '' '' @ word @ py_str '' '')) hedging_words) in
      Inr (if 3 \<le> hedging_count then t\<lparr>ai_indicators := ai_indicators t + 1\<rparr> else t))"

text \<open>5. Personal pronouns.\<close>

definition pronouns :: "unicode \<Rightarrow> str \<Rightarrow> tally \<Rightarrow> error + tally" where
  "pronouns U txt t =
     (let personal_pronouns =
            count (lower U txt) (py_str '' i '') + count (lower U txt) (py_str '' my '')
            + count (lower U txt) (py_str '' me '') + count (lower U txt) (py_str ''i'm'') in
      Inr (if 2 \<le> personal_pronouns then t\<lparr>human_indicators := human_indicators t + 2\<rparr>
           else if personal_pronouns = 0 \<and> 200 < length txt
             then t\<lparr>ai_indicators := ai_indicators t + 1\<rparr>
           else t))"

text \<open>6. Contractions (counted in the text as given, not lower-cased).\<close>

definition contractions :: "str list" where
  "contractions = map py_str [''n't'', '''ll'', '''re'', '''ve'', '''d'', '''m'', '''s'']"

definition contraction_use :: "unicode \<Rightarrow> str \<Rightarrow> tally \<Rightarrow> error + tally" where
  "contraction_use U txt t =
     (let contraction_count = sum_list (map (\<lambda>c. count txt c) contractions) in
      Inr (if 2 \<le> contraction_count then t\<lparr>human_indicators := human_indicators t + 2\<rparr>
           else if contraction_count = 0 \<and> 150 < length txt
             then t\<lparr>ai_indicators := ai_indicators t + 1\<rparr>
           else t))"

text \<open>7. Exclamation points and questions.\<close>

definition excitement :: "unicode \<Rightarrow> str \<Rightarrow> tally \<Rightarrow> error + tally" where
  "excitement U txt t =
     Inr (if 2 \<le> count txt (py_str ''!'') + count txt (py_str ''?'')
          then t\<lparr>human_indicators := human_indicators t + 1\<rparr> else t)"

text \<open>8. Lists and formatting.\<close>

definition newline :: str where
  "newline = [10]"

definition list_formatting :: "unicode \<Rightarrow> str \<Rightarrow> tally \<Rightarrow> error + tally" where
  "list_formatting U txt t =
     Inr (if 2 \<le> count txt (newline @ py_str ''-'') \<or> 2 \<le> count txt (newline @ py_str ''*'')
             \<or> 1 \<le> count txt (newline @ py_str ''1.'')
          then t\<lparr>ai_indicators := ai_indicators t + 1\<rparr> else t)"

text \<open>9. "Grammar errors".\<close>

definition grammar_errors :: "unicode \<Rightarrow> str \<Rightarrow> tally \<Rightarrow> error + tally" where
  "grammar_errors U txt t =
     Inr (if contains (lower U txt) (py_str '' alot '') \<or> contains (lower U txt) (py_str '' there '')
             \<or> contains (lower U txt) (py_str '' their '')
          then t\<lparr>human_indicators := human_indicators t + 1\<rparr> else t)"

text \<open>10. Vocabulary diversity.\<close>

definition vocabulary_diversity :: "unicode \<Rightarrow> str \<Rightarrow> tally \<Rightarrow> error + tally" where
  "vocabulary_diversity U txt t =
     (let words = findall_words U (lower U txt);
          unique_words = card (set words);
          total_words = length words in
      if 0 < total_words then
        (case truediv (real unique_words) (real total_words) of
           Inl e \<Rightarrow> Inl e
         | Inr diversity \<Rightarrow>
             Inr (if diversity > 0.7 then t\<lparr>human_indicators := human_indicators t + 1\<rparr>
                  else if diversity < 0.5 then t\<lparr>ai_indicators := ai_indicators t + 1\<rparr>
                  else t))
      else Inr t)"

text \<open>The ten signals run in the order of the source; an exception ends the run.\<close>

fun run_signals :: "('t \<Rightarrow> error + 't) list \<Rightarrow> 't \<Rightarrow> error + 't" where
  "run_signals [] t = Inr t"
| "run_signals (f # fs) t = (case f t of Inl e \<Rightarrow> Inl e | Inr t' \<Rightarrow> run_signals fs t')"

definition text_signals :: "unicode \<Rightarrow> str \<Rightarrow> (tally \<Rightarrow> error + tally) list" where
  "text_signals U txt =
     [sentence_structure U txt, transition_phrases U txt, repetitive_phrasing U txt,
      hedging U txt, pronouns U txt, contraction_use U txt, excitement U txt,
      list_formatting U txt, grammar_errors U txt, vocabulary_diversity U txt]"

definition text_tallies :: "unicode \<Rightarrow> str \<Rightarrow> error + tally" where
  "text_tallies U txt = run_signals (text_signals U txt) \<lparr>ai_indicators = 0, human_indicators = 0\<rparr>"

text \<open>The final score: the probability before the jitter, the jitter, label and confidence.\<close>

definition text_probability :: "tally \<Rightarrow> error + real" where
  "text_probability t =
     (let total_indicators = ai_indicators t + human_indicators t in
      if total_indicators = 0 then Inr 0.45
      else truediv (real (ai_indicators t)) (real total_indicators))"

definition add_jitter :: "real \<Rightarrow> real \<Rightarrow> real" where
  "add_jitter ai_probability jitter = max 0.0 (min 1.0 (ai_probability + jitter))"

definition label :: "bool \<Rightarrow> str" where
  "label is_ai = (if is_ai then py_str ''ai-generated'' else py_str ''real'')"

definition raw_confidence :: "real \<Rightarrow> int" where
  "raw_confidence ai_probability =
     (if ai_probability > 0.5 then py_int (ai_probability * 100)
      else py_int ((1 - ai_probability) * 100))"

definition text_response :: "real \<Rightarrow> AnalysisResponse" where
  "text_response ai_probability =
     \<lparr>status = label (ai_probability > 0.5),
      confidence = max 60 (min 90 (raw_confidence ai_probability))\<rparr>"

definition text_too_short :: error where
  "text_too_short =
     HTTPException 400 (py_str ''Text must be at least 50 characters long for accurate analysis'')"

definition analyze_text :: "unicode \<Rightarrow> TextRequest \<Rightarrow> real \<Rightarrow> error + AnalysisResponse" where
  "analyze_text U request jitter =
     (if length (text request) < 50 then Inl text_too_short
      else
        (case text_tallies U (text request) of
           Inl e \<Rightarrow> Inl e
         | Inr t \<Rightarrow>
            (case text_probability t of
               Inl e \<Rightarrow> Inl e
             | Inr ai_probability \<Rightarrow> Inr (text_response (add_jitter ai_probability jitter)))))"

subsection \<open>The image scorer\<close>

text \<open>
  What the handler reads from the request and from the image library. \<open>getextrema\<close> and
  \<open>getexif\<close> are \<open>None\<close> when the call raises; \<open>getexif\<close> gives the number of tags.
  \<open>http_exception_str\<close> is \<^verbatim>\<open>str(e)\<close> of an \<^verbatim>\<open>HTTPException\<close> with the given status code
  and detail (it depends on the version of the web framework).
\<close>

record UploadFile =
  content_type :: "str option"
  contents :: "8 word list"

record image =
  width :: nat
  height :: nat
  getextrema :: "(int \<times> int) list option"
  getexif :: "nat option"

record library =
  decode :: "8 word list \<Rightarrow> str + image"
  http_exception_str :: "nat \<Rightarrow> str \<Rightarrow> str"

datatype exception =
  Http error
| ImageError str

record image_tally =
  ai_score :: nat
  human_score :: nat

text \<open>1. Dimensions.\<close>

definition common_ai_dimensions :: "(nat \<times> nat) list" where
  "common_ai_dimensions =
     [(512, 512), (1024, 1024), (768, 768),
      (1024, 1024), (1792, 1024), (1024, 1792),
      (1024, 576), (576, 1024)]"

definition dimension_match :: "nat \<Rightarrow> image \<Rightarrow> image_tally \<Rightarrow> error + image_tally" where
  "dimension_match file_size img t =
     Inr (if (width img, height img) \<in> set common_ai_dimensions
             \<or> (height img, width img) \<in> set common_ai_dimensions
          then t\<lparr>ai_score := ai_score t + 3\<rparr> else t)"

text \<open>2. Multiples of 64 or 128.\<close>

definition dimension_multiples :: "nat \<Rightarrow> image \<Rightarrow> image_tally \<Rightarrow> error + image_tally" where
  "dimension_multiples file_size img t =
     Inr (if (width img mod 128 = 0 \<and> height img mod 128 = 0)
             \<or> (width img mod 64 = 0 \<and> height img mod 64 = 0)
          then t\<lparr>ai_score := ai_score t + 2\<rparr>
          else t\<lparr>human_score := human_score t + 1\<rparr>)"

text \<open>3. Aspect ratio.\<close>

definition perfect_ratios :: "real list" where
  "perfect_ratios = [1.0, 1.5, 0.67, 1.77, 0.56, 1.91]"

definition aspect_ratio_signal :: "nat \<Rightarrow> image \<Rightarrow> image_tally \<Rightarrow> error + image_tally" where
  "aspect_ratio_signal file_size img t =
     (case (if 0 < height img then truediv (real (width img)) (real (height img)) else Inr 1) of
        Inl e \<Rightarrow> Inl e
      | Inr aspect_ratio \<Rightarrow>
          Inr (if list_ex (\<lambda>ratio. \<bar>aspect_ratio - ratio\<bar> < 0.05) perfect_ratios
               then t\<lparr>ai_score := ai_score t + 1\<rparr> else t))"

text \<open>4. File size.\<close>

definition bytes_per_pixel_signal :: "nat \<Rightarrow> image \<Rightarrow> image_tally \<Rightarrow> error + image_tally" where
  "bytes_per_pixel_signal file_size img t =
     (let pixels = width img * height img in
      if 0 < pixels then
        (case truediv (real file_size) (real pixels) of
           Inl e \<Rightarrow> Inl e
         | Inr bytes_per_pixel \<Rightarrow>
             Inr (if 2.0 \<le> bytes_per_pixel \<and> bytes_per_pixel \<le> 4.0
                  then t\<lparr>ai_score := ai_score t + 1\<rparr> else t))
      else Inr t)"

text \<open>5. Colour properties; whatever is raised inside is swallowed.\<close>

definition colour_signal :: "nat \<Rightarrow> image \<Rightarrow> image_tally \<Rightarrow> error + image_tally" where
  "colour_signal file_size img t =
     (case getextrema img of
        None \<Rightarrow> Inr t
      | Some stat \<Rightarrow>
         (let ranges = map (\<lambda>(min_val, max_val). max_val - min_val) stat in
          case truediv (real_of_int (sum_list ranges)) 3 of
            Inl e \<Rightarrow> Inr t
          | Inr avg_range \<Rightarrow>
             (let t1 = (if avg_range > 200 then t\<lparr>ai_score := ai_score t + 2\<rparr>
                        else if avg_range < 150 then t\<lparr>human_score := human_score t + 1\<rparr>
                        else t) in
              Inr (if list_ex (\<lambda>(min_val, max_val). min_val = 0 \<or> max_val = 255) stat
                   then t1\<lparr>ai_score := ai_score t1 + 1\<rparr> else t1))))"

text \<open>6. EXIF data.\<close>

definition exif_signal :: "nat \<Rightarrow> image \<Rightarrow> image_tally \<Rightarrow> error + image_tally" where
  "exif_signal file_size img t =
     (case getexif img of
        None \<Rightarrow> Inr (t\<lparr>ai_score := ai_score t + 1\<rparr>)
      | Some exif \<Rightarrow>
          Inr (if exif \<noteq> 0 \<and> 5 < exif then t\<lparr>human_score := human_score t + 3\<rparr>
               else t\<lparr>ai_score := ai_score t + 2\<rparr>))"

definition image_signals :: "nat \<Rightarrow> image \<Rightarrow> (image_tally \<Rightarrow> error + image_tally) list" where
  "image_signals file_size img =
     [dimension_match file_size img, dimension_multiples file_size img,
      aspect_ratio_signal file_size img, bytes_per_pixel_signal file_size img,
      colour_signal file_size img, exif_signal file_size img]"

definition image_tallies :: "nat \<Rightarrow> image \<Rightarrow> error + image_tally" where
  "image_tallies file_size img =
     run_signals (image_signals file_size img) \<lparr>ai_score = 0, human_score = 0\<rparr>"

definition image_probability :: "image_tally \<Rightarrow> error + real" where
  "image_probability t =
     (let total_score = ai_score t + human_score t in
      if total_score = 0 then Inr 0.5
      else truediv (real (ai_score t)) (real total_score))"

definition image_response :: "real \<Rightarrow> AnalysisResponse" where
  "image_response ai_probability =
     \<lparr>status = label (ai_probability > 0.5),
      confidence = max 65 (min 88 (raw_confidence ai_probability))\<rparr>"

text \<open>The \<^verbatim>\<open>try\<close> block that reads, checks and decodes the upload, and its handler.\<close>

definition file_too_large :: error where
  "file_too_large = HTTPException 400 (py_str ''File size exceeds 5MB limit'')"

definition invalid_file_type :: error where
  "invalid_file_type =
     HTTPException 400 (py_str ''Invalid file type. Please upload an image (JPG, PNG, WebP)'')"

definition load_image :: "library \<Rightarrow> UploadFile \<Rightarrow> exception + image" where
  "load_image L file =
     (if 5 * 1024 * 1024 < length (contents file) then Inl (Http file_too_large)
      else (case decode L (contents file) of
              Inl msg \<Rightarrow> Inl (ImageError msg)
            | Inr img \<Rightarrow> Inr img))"

fun exception_str :: "library \<Rightarrow> exception \<Rightarrow> str" where
  "exception_str L (Http (HTTPException status_code detail)) = http_exception_str L status_code detail"
| "exception_str L (Http ZeroDivisionError) = py_str ''division by zero''"
| "exception_str L (ImageError msg) = msg"

definition is_image_type :: "str option \<Rightarrow> bool" where
  "is_image_type ct =
     (case ct of None \<Rightarrow> False | Some c \<Rightarrow> c \<noteq> [] \<and> startswith c (py_str ''image/''))"

definition analyze_image :: "library \<Rightarrow> UploadFile \<Rightarrow> real \<Rightarrow> error + AnalysisResponse" where
  "analyze_image L file jitter =
     (if \<not> is_image_type (content_type file) then Inl invalid_file_type
      else
        (case load_image L file of
           Inl e \<Rightarrow> Inl (HTTPException 400 (py_str ''Invalid image file: '' @ exception_str L e))
         | Inr img \<Rightarrow>
            (case image_tallies (length (contents file)) img of
               Inl e \<Rightarrow> Inl e
             | Inr t \<Rightarrow>
                (case image_probability t of
                   Inl e \<Rightarrow> Inl e
                 | Inr ai_probability \<Rightarrow>
                     Inr (image_response (add_jitter ai_probability jitter))))))"

subsection \<open>Sample inputs\<close>

text \<open>The text of fifty \<^verbatim>\<open>test\<close> tokens separated by single spaces, and fifty commas.\<close>

definition test_text :: str where
  "test_text = concat (replicate 49 (py_str ''test '')) @ py_str ''test''"

definition fifty_commas :: str where
  "fifty_commas = concat (replicate 50 (py_str '',''))"

definition fifty_dots :: str where
  "fifty_dots = concat (replicate 50 (py_str ''.''))"

text \<open>
  Fifty underscores and fifty punctuation characters; \<open>ascii_isalnum\<close> is \<^verbatim>\<open>str.isalnum\<close> on
  one ASCII character.
\<close>

definition fifty_underscores :: str where
  "fifty_underscores = concat (replicate 50 (py_str ''_''))"

definition punctuation_text :: str where
  "punctuation_text = concat (replicate 10 (py_str ''?!.,-''))"

definition ascii_isalnum :: "codepoint \<Rightarrow> bool" where
  "ascii_isalnum c = ((48 \<le> c \<and> c \<le> 57) \<or> (65 \<le> c \<and> c \<le> 90) \<or> (97 \<le> c \<and> c \<le> 122))"

text \<open>A short text on which most signals fire.\<close>

definition opinion_text :: str where
  "opinion_text = py_str ''I think this is fine. I think that is fine. I think it's ok! Don't you? Well there it is, my friend, and I may go.''"

text \<open>A 512 by 512 image of one mid-gray colour without metadata, and uploads of \<open>n\<close> zero bytes.\<close>

definition gray_image :: image where
  "gray_image =
     \<lparr>width = 512, height = 512,
      getextrema = Some [(128, 128), (128, 128), (128, 128)], getexif = Some 0\<rparr>"

definition upload :: "string \<Rightarrow> nat \<Rightarrow> UploadFile" where
  "upload ct n = \<lparr>content_type = Some (py_str ct), contents = replicate n 0\<rparr>"

text \<open>
  A library that decodes every upload to the given image and prints an \<^verbatim>\<open>HTTPException\<close> as
  \<^verbatim>\<open>"<status_code>: <detail>"\<close>.
\<close>

fun str_nat :: "nat \<Rightarrow> str" where
  "str_nat n = (if n < 10 then [48 + n] else str_nat (n div 10) @ [48 + n mod 10])"

definition decodes_to :: "image \<Rightarrow> library" where
  "decodes_to img =
     \<lparr>decode = (\<lambda>bytes. Inr img),
      http_exception_str = (\<lambda>status_code detail. str_nat status_code @ py_str '': '' @ detail)\<rparr>"

section \<open>Properties\<close>

subsection \<open>The sample texts\<close>

lemma length_fifty_commas: "length fifty_commas = 50"
  by (simp add: fifty_commas_def py_str_def length_concat sum_list_replicate)

lemma length_fifty_dots: "length fifty_dots = 50"
  by (simp add: fifty_dots_def py_str_def length_concat sum_list_replicate)

lemma length_test_text: "length test_text = 249"
  by (simp add: test_text_def py_str_def length_concat sum_list_replicate)

subsection \<open>Division never fails, probabilities are in the unit interval\<close>

lemma truediv_Inr: "b \<noteq> 0 \<Longrightarrow> truediv a b = Inr (a / b)"
  by (simp add: truediv_def)

lemma sentence_structure_total: "\<exists>t'. sentence_structure U txt t = Inr t'"
  by (simp add: sentence_structure_def Let_def truediv_def)

lemma vocabulary_diversity_total: "\<exists>t'. vocabulary_diversity U txt t = Inr t'"
  by (simp add: vocabulary_diversity_def Let_def truediv_def)

lemma run_signals_total:
  "(\<And>f t. f \<in> set fs \<Longrightarrow> \<exists>t'. f t = Inr t') \<Longrightarrow> \<exists>t'. run_signals fs t = Inr t'"
proof (induction fs arbitrary: t)
  case Nil
  then show ?case by simp
next
  case (Cons f fs)
  from Cons.prems [of f t] obtain t1 where t1: "f t = Inr t1" by auto
  from Cons.IH [of t1] Cons.prems obtain t2 where "run_signals fs t1 = Inr t2" by auto
  with t1 show ?case by simp
qed

lemma text_tallies_total: "\<exists>t. text_tallies U txt = Inr t"
  unfolding text_tallies_def
proof (rule run_signals_total)
  fix f t
  assume "f \<in> set (text_signals U txt)"
  then consider "f = sentence_structure U txt" | "f = transition_phrases U txt"
    | "f = repetitive_phrasing U txt" | "f = hedging U txt" | "f = pronouns U txt"
    | "f = contraction_use U txt" | "f = excitement U txt" | "f = list_formatting U txt"
    | "f = grammar_errors U txt" | "f = vocabulary_diversity U txt"
    by (auto simp: text_signals_def)
  then show "\<exists>t'. f t = Inr t'"
  proof cases
    case 1 then show ?thesis by (simp add: sentence_structure_total)
  next
    case 2 then show ?thesis by (simp add: transition_phrases_def Let_def)
  next
    case 3 then show ?thesis by (simp add: repetitive_phrasing_def)
  next
    case 4 then show ?thesis by (simp add: hedging_def Let_def)
  next
    case 5 then show ?thesis by (simp add: pronouns_def Let_def)
  next
    case 6 then show ?thesis by (simp add: contraction_use_def Let_def)
  next
    case 7 then show ?thesis by (simp add: excitement_def)
  next
    case 8 then show ?thesis by (simp add: list_formatting_def)
  next
    case 9 then show ?thesis by (simp add: grammar_errors_def)
  next
    case 10 then show ?thesis by (simp add: vocabulary_diversity_total)
  qed
qed

lemma truediv_ratio:
  fixes a b :: nat
  assumes "a + b \<noteq> 0"
  shows "truediv (real a) (real (a + b)) = Inr (real a / real (a + b))"
    and "0 \<le> real a / real (a + b)"
    and "real a / real (a + b) \<le> 1"
proof -
  have pos: "0 < real (a + b)"
    using assms by (simp del: of_nat_add)
  then show "truediv (real a) (real (a + b)) = Inr (real a / real (a + b))"
    by (simp add: truediv_def del: of_nat_add)
  show "0 \<le> real a / real (a + b)"
    by simp
  have "real a \<le> real (a + b)"
    by simp
  with pos show "real a / real (a + b) \<le> 1"
    by (simp add: divide_le_eq del: of_nat_add)
qed

lemma text_probability_range:
  "\<exists>p. text_probability t = Inr p \<and> 0 \<le> p \<and> p \<le> 1"
proof (cases "ai_indicators t + human_indicators t = 0")
  case True
  then have "text_probability t = Inr 0.45" by (simp add: text_probability_def)
  moreover have "(0::real) \<le> 0.45 \<and> (0.45::real) \<le> 1" by simp
  ultimately show ?thesis by blast
next
  case False
  have "text_probability t
      = truediv (real (ai_indicators t)) (real (ai_indicators t + human_indicators t))"
    unfolding text_probability_def Let_def by (rule if_not_P [OF False])
  with truediv_ratio [OF False] show ?thesis by metis
qed

lemma add_jitter_range: "0 \<le> add_jitter p j \<and> add_jitter p j \<le> 1"
  by (simp add: add_jitter_def)

lemma label_cases: "label b = py_str ''real'' \<or> label b = py_str ''ai-generated''"
  by (simp add: label_def)

lemma text_response_confidence:
  "60 \<le> confidence (text_response p) \<and> confidence (text_response p) \<le> 90"
  by (simp add: text_response_def)

lemma analyze_text_scored:
  assumes "50 \<le> length (text request)"
  shows "\<exists>t p. text_tallies U (text request) = Inr t \<and> text_probability t = Inr p
           \<and> 0 \<le> p \<and> p \<le> 1
           \<and> analyze_text U request jitter = Inr (text_response (add_jitter p jitter))"
proof -
  obtain t where t: "text_tallies U (text request) = Inr t"
    using text_tallies_total by blast
  obtain p where p: "text_probability t = Inr p" "0 \<le> p" "p \<le> 1"
    using text_probability_range by blast
  from assms t p show ?thesis by (simp add: analyze_text_def)
qed

text \<open>
  C2. For every text of at least 50 characters and every jitter in \<open>[-0.05, 0.05]\<close> the text
  scorer returns a response; its confidence is an integer between 60 and 90 and its status is
  \<^verbatim>\<open>real\<close> or \<^verbatim>\<open>ai-generated\<close>.
\<close>

theorem text_confidence_band:
  assumes "50 \<le> length (text request)" and "- 0.05 \<le> jitter" and "jitter \<le> 0.05"
  shows "\<exists>r. analyze_text U request jitter = Inr r
           \<and> 60 \<le> confidence r \<and> confidence r \<le> 90
           \<and> (status r = py_str ''real'' \<or> status r = py_str ''ai-generated'')"
proof -
  from analyze_text_scored [OF assms(1)] obtain p
    where "analyze_text U request jitter = Inr (text_response (add_jitter p jitter))" by blast
  moreover have "status (text_response (add_jitter p jitter)) = py_str ''real''
      \<or> status (text_response (add_jitter p jitter)) = py_str ''ai-generated''"
    using label_cases by (simp add: text_response_def)
  ultimately show ?thesis using text_response_confidence by blast
qed

theorem text_confidence_band_witness:
  "50 \<le> length (text \<lparr>text = fifty_commas\<rparr>) \<and> - 0.05 \<le> (0.02::real) \<and> (0.02::real) \<le> 0.05
   \<and> (\<exists>r. analyze_text ascii \<lparr>text = fifty_commas\<rparr> 0.02 = Inr r
         \<and> 60 \<le> confidence r \<and> confidence r \<le> 90
         \<and> (status r = py_str ''real'' \<or> status r = py_str ''ai-generated''))"
  using text_confidence_band [of "\<lparr>text = fifty_commas\<rparr>" "0.02" ascii]
  by (simp add: length_fifty_commas)

text \<open>
  C8. A text of fewer than 50 characters is rejected with status 400 and the message
  \<^verbatim>\<open>Text must be at least 50 characters long for accurate analysis\<close>, whatever the signals
  would say (the result does not depend on them) and without a response; a text of 50
  characters or more is scored: the response is the one computed from its tallies.
\<close>

theorem text_length_gate:
  "(length (text request) < 50 \<longrightarrow>
      analyze_text U request jitter =
        Inl (HTTPException 400
              (py_str ''Text must be at least 50 characters long for accurate analysis'')))
   \<and> (50 \<le> length (text request) \<longrightarrow>
        (\<exists>t p. text_tallies U (text request) = Inr t \<and> text_probability t = Inr p
           \<and> analyze_text U request jitter = Inr (text_response (add_jitter p jitter))))"
proof (intro conjI impI)
  assume "length (text request) < 50"
  then show "analyze_text U request jitter =
        Inl (HTTPException 400
              (py_str ''Text must be at least 50 characters long for accurate analysis''))"
    by (simp add: analyze_text_def text_too_short_def)
next
  assume "50 \<le> length (text request)"
  from analyze_text_scored [OF this]
  show "\<exists>t p. text_tallies U (text request) = Inr t \<and> text_probability t = Inr p
           \<and> analyze_text U request jitter = Inr (text_response (add_jitter p jitter))"
    by blast
qed

theorem text_length_gate_witness:
  "length (text \<lparr>text = py_str ''too short''\<rparr>) < 50
   \<and> analyze_text ascii \<lparr>text = py_str ''too short''\<rparr> 0 =
        Inl (HTTPException 400
              (py_str ''Text must be at least 50 characters long for accurate analysis''))
   \<and> 50 \<le> length (text \<lparr>text = fifty_dots\<rparr>)
   \<and> (\<exists>t p. text_tallies ascii (text \<lparr>text = fifty_dots\<rparr>) = Inr t \<and> text_probability t = Inr p
          \<and> analyze_text ascii \<lparr>text = fifty_dots\<rparr> 0 = Inr (text_response (add_jitter p 0)))"
  using text_length_gate [of "\<lparr>text = py_str ''too short''\<rparr>" ascii 0]
    text_length_gate [of "\<lparr>text = fifty_dots\<rparr>" ascii 0]
  by (simp add: length_fifty_dots py_str_def)

subsection \<open>The image scorer\<close>

lemma image_signals_total:
  "\<exists>t'. dimension_match n img t = Inr t'"
  "\<exists>t'. dimension_multiples n img t = Inr t'"
  "\<exists>t'. aspect_ratio_signal n img t = Inr t'"
  "\<exists>t'. bytes_per_pixel_signal n img t = Inr t'"
  "\<exists>t'. colour_signal n img t = Inr t'"
  "\<exists>t'. exif_signal n img t = Inr t'"
       apply (simp add: dimension_match_def)
      apply (simp add: dimension_multiples_def)
     apply (simp add: aspect_ratio_signal_def truediv_def)
    apply (simp add: bytes_per_pixel_signal_def truediv_def Let_def)
   apply (simp add: colour_signal_def truediv_def Let_def split: option.split)
  apply (simp add: exif_signal_def split: option.split)
  done

text \<open>Signals never lower a tally.\<close>

lemma image_signals_mono:
  "dimension_match n img t = Inr t' \<Longrightarrow> ai_score t \<le> ai_score t' \<and> human_score t \<le> human_score t'"
  "aspect_ratio_signal n img t = Inr t' \<Longrightarrow> ai_score t \<le> ai_score t' \<and> human_score t \<le> human_score t'"
  "bytes_per_pixel_signal n img t = Inr t' \<Longrightarrow> ai_score t \<le> ai_score t' \<and> human_score t \<le> human_score t'"
  "colour_signal n img t = Inr t' \<Longrightarrow> ai_score t \<le> ai_score t' \<and> human_score t \<le> human_score t'"
     apply (auto simp: dimension_match_def split: if_splits)[1]
    apply (auto simp: aspect_ratio_signal_def truediv_def split: if_splits)[1]
   apply (auto simp: bytes_per_pixel_signal_def truediv_def Let_def split: if_splits)[1]
  apply (auto simp: colour_signal_def truediv_def Let_def split: if_splits option.splits)[1]
  done

lemma dimension_multiples_adds:
  "dimension_multiples n img t = Inr t' \<Longrightarrow>
     ai_score t \<le> ai_score t' \<and> human_score t \<le> human_score t'
     \<and> ai_score t + human_score t + 1 \<le> ai_score t' + human_score t'"
  by (auto simp: dimension_multiples_def split: if_splits)

lemma exif_signal_adds:
  "exif_signal n img t = Inr t' \<Longrightarrow>
     ai_score t + human_score t + 1 \<le> ai_score t' + human_score t'"
  by (auto simp: exif_signal_def split: if_splits option.splits)

lemma image_tallies_at_least_two:
  "\<exists>t. image_tallies n img = Inr t \<and> 2 \<le> ai_score t + human_score t"
proof -
  let ?t0 = "\<lparr>ai_score = 0, human_score = 0\<rparr>"
  obtain t1 where t1: "dimension_match n img ?t0 = Inr t1"
    using image_signals_total(1) by blast
  obtain t2 where t2: "dimension_multiples n img t1 = Inr t2"
    using image_signals_total(2) by blast
  obtain t3 where t3: "aspect_ratio_signal n img t2 = Inr t3"
    using image_signals_total(3) by blast
  obtain t4 where t4: "bytes_per_pixel_signal n img t3 = Inr t4"
    using image_signals_total(4) by blast
  obtain t5 where t5: "colour_signal n img t4 = Inr t5"
    using image_signals_total(5) by blast
  obtain t6 where t6: "exif_signal n img t5 = Inr t6"
    using image_signals_total(6) by blast
  have run: "image_tallies n img = Inr t6"
    by (simp add: image_tallies_def image_signals_def t1 t2 t3 t4 t5 t6)
  have "1 \<le> ai_score t2 + human_score t2"
    using dimension_multiples_adds [OF t2] by linarith
  moreover have "ai_score t2 \<le> ai_score t3 \<and> human_score t2 \<le> human_score t3"
    "ai_score t3 \<le> ai_score t4 \<and> human_score t3 \<le> human_score t4"
    "ai_score t4 \<le> ai_score t5 \<and> human_score t4 \<le> human_score t5"
    using image_signals_mono(2) [OF t3] image_signals_mono(3) [OF t4]
      image_signals_mono(4) [OF t5] by simp_all
  ultimately have "1 \<le> ai_score t5 + human_score t5"
    by linarith
  with exif_signal_adds [OF t6] have "2 \<le> ai_score t6 + human_score t6"
    by linarith
  with run show ?thesis by blast
qed

lemma image_probability_range:
  "\<exists>p. image_probability t = Inr p \<and> 0 \<le> p \<and> p \<le> 1"
proof (cases "ai_score t + human_score t = 0")
  case True
  then have "image_probability t = Inr 0.5" by (simp add: image_probability_def)
  moreover have "(0::real) \<le> 0.5 \<and> (0.5::real) \<le> 1" by simp
  ultimately show ?thesis by blast
next
  case False
  have "image_probability t
      = truediv (real (ai_score t)) (real (ai_score t + human_score t))"
    unfolding image_probability_def Let_def by (rule if_not_P [OF False])
  with truediv_ratio [OF False] show ?thesis by metis
qed

text \<open>
  C9. Every image that reaches the scoring phase ends with \<open>ai_score + human_score \<ge> 2\<close>
  (signal 2 and signal 6 each add at least one point), so the branch for a total of zero is
  never taken: the probability is always the ratio \<open>ai_score / total_score\<close>.
\<close>

theorem image_default_unreachable:
  "\<exists>t. image_tallies file_size img = Inr t \<and> 2 \<le> ai_score t + human_score t
      \<and> ai_score t + human_score t \<noteq> 0
      \<and> image_probability t = Inr (real (ai_score t) / real (ai_score t + human_score t))"
proof -
  obtain t where t: "image_tallies file_size img = Inr t" "2 \<le> ai_score t + human_score t"
    using image_tallies_at_least_two by blast
  then have nz: "ai_score t + human_score t \<noteq> 0" by linarith
  have "image_probability t
      = truediv (real (ai_score t)) (real (ai_score t + human_score t))"
    unfolding image_probability_def Let_def by (rule if_not_P [OF nz])
  with truediv_ratio(1) [OF nz] t nz show ?thesis by metis
qed

lemma image_response_confidence:
  "65 \<le> confidence (image_response p) \<and> confidence (image_response p) \<le> 88"
  by (simp add: image_response_def)

lemma analyze_image_scored:
  assumes "is_image_type (content_type file)"
    and "length (contents file) \<le> 5 * 1024 * 1024"
    and "decode L (contents file) = Inr img"
  shows "\<exists>t p. image_tallies (length (contents file)) img = Inr t \<and> image_probability t = Inr p
           \<and> 0 \<le> p \<and> p \<le> 1
           \<and> analyze_image L file jitter = Inr (image_response (add_jitter p jitter))"
proof -
  obtain t where t: "image_tallies (length (contents file)) img = Inr t"
    using image_tallies_at_least_two by blast
  obtain p where p: "image_probability t = Inr p" "0 \<le> p" "p \<le> 1"
    using image_probability_range by blast
  have "load_image L file = Inr img"
    using assms(2,3) by (simp add: load_image_def)
  with assms(1) t p show ?thesis by (simp add: analyze_image_def)
qed

text \<open>
  C3. For every upload with an image content type and at most 5 MiB that the library decodes,
  and every jitter in \<open>[-0.05, 0.05]\<close>, the image scorer returns a response whose
  confidence is an integer between 65 and 88.
\<close>

theorem image_confidence_band:
  assumes "is_image_type (content_type file)"
    and "length (contents file) \<le> 5 * 1024 * 1024"
    and "decode L (contents file) = Inr img"
    and "- 0.05 \<le> jitter" and "jitter \<le> 0.05"
  shows "\<exists>r. analyze_image L file jitter = Inr r \<and> 65 \<le> confidence r \<and> confidence r \<le> 88"
proof -
  from analyze_image_scored [OF assms(1-3)] obtain p
    where "analyze_image L file jitter = Inr (image_response (add_jitter p jitter))" by blast
  then show ?thesis using image_response_confidence by blast
qed

theorem image_confidence_band_witness:
  "is_image_type (content_type (upload ''image/png'' 1000))
   \<and> length (contents (upload ''image/png'' 1000)) \<le> 5 * 1024 * 1024
   \<and> decode (decodes_to gray_image) (contents (upload ''image/png'' 1000)) = Inr gray_image
   \<and> - 0.05 \<le> (0.05::real) \<and> (0.05::real) \<le> 0.05
   \<and> (\<exists>r. analyze_image (decodes_to gray_image) (upload ''image/png'' 1000) 0.05 = Inr r
         \<and> 65 \<le> confidence r \<and> confidence r \<le> 88)"
  using image_confidence_band
    [of "upload ''image/png'' 1000" "decodes_to gray_image" gray_image "0.05"]
  by (simp add: upload_def decodes_to_def is_image_type_def startswith_def py_str_def)

subsection \<open>Strings: absent characters, texts of one sentence, repeated words\<close>

lemma startswith_subset: "startswith s sub \<Longrightarrow> set sub \<subseteq> set s"
proof -
  assume "startswith s sub"
  then have "sub = take (length sub) s" by (simp add: startswith_def)
  then show ?thesis by (metis set_take_subset)
qed

lemma count_from_absent: "x \<in> set sub \<Longrightarrow> x \<notin> set s \<Longrightarrow> count_from sub k s = 0"
proof (induction sub k s rule: count_from.induct)
  case (1 sub k)
  then show ?case by auto
next
  case (2 sub k c cs)
  then show ?case by simp
next
  case (3 sub c cs)
  from 3(3,4) have "\<not> startswith (c # cs) sub"
    using startswith_subset by blast
  with 3 show ?case by simp
qed

lemma count_zero: "\<not> set sub \<subseteq> set s \<Longrightarrow> count s sub = 0"
  unfolding count_def using count_from_absent by blast

lemma contains_absent: "x \<in> set sub \<Longrightarrow> x \<notin> set s \<Longrightarrow> \<not> contains s sub"
proof (induction s)
  case Nil
  then show ?case by auto
next
  case (Cons c cs)
  then have "\<not> startswith (c # cs) sub"
    using startswith_subset by blast
  with Cons show ?case by simp
qed

lemma contains_false: "\<not> set sub \<subseteq> set s \<Longrightarrow> contains s sub = False"
  using contains_absent by blast

lemma re_split_no_separator:
  "\<forall>c\<in>set s. \<not> sep c \<Longrightarrow> re_split_from sep cur b s = [rev cur @ s]"
  by (induction s arbitrary: cur b) auto

lemma runs_none: "\<forall>c\<in>set s. \<not> keep c \<Longrightarrow> runs keep [] s = []"
  by (induction s) auto

lemma runs_all: "\<forall>c\<in>set s. keep c \<Longrightarrow> runs keep cur s = (if rev cur @ s = [] then [] else [rev cur @ s])"
  by (induction s arbitrary: cur) auto

lemma runs_word_then_separator:
  "\<forall>x\<in>set w. keep x \<Longrightarrow> \<not> keep c \<Longrightarrow> rev cur @ w \<noteq> [] \<Longrightarrow>
     runs keep cur (w @ c # rest) = (rev cur @ w) # runs keep [] rest"
  by (induction w arbitrary: cur) auto

lemma runs_repeated_word:
  assumes "\<forall>x\<in>set w. keep x" and "\<not> keep c" and "w \<noteq> []"
  shows "runs keep [] (concat (replicate n (w @ [c])) @ w) = replicate (Suc n) w"
proof (induction n)
  case 0
  from assms show ?case by (simp add: runs_all)
next
  case (Suc n)
  have "runs keep [] (concat (replicate (Suc n) (w @ [c])) @ w)
      = runs keep [] (w @ c # (concat (replicate n (w @ [c])) @ w))" by simp
  also have "\<dots> = w # runs keep [] (concat (replicate n (w @ [c])) @ w)"
    using assms by (simp add: runs_word_then_separator)
  finally show ?case using Suc by simp
qed

lemma strip_unchanged:
  "s \<noteq> [] \<Longrightarrow> \<not> isspace U (hd s) \<Longrightarrow> \<not> isspace U (last s) \<Longrightarrow> strip U s = s"
proof -
  assume a: "s \<noteq> []" "\<not> isspace U (hd s)" "\<not> isspace U (last s)"
  then have 1: "dropWhile (isspace U) s = s" by (cases s) auto
  from a have "rev s \<noteq> []" "\<not> isspace U (hd (rev s))" by (simp_all add: hd_rev)
  then have 2: "dropWhile (isspace U) (rev s) = rev s" by (cases "rev s") auto
  show ?thesis by (simp add: strip_def 1 2)
qed

lemma sentences_single:
  assumes "\<forall>c\<in>set s. \<not> sentence_end c" and "s \<noteq> []"
    and "\<not> isspace U (hd s)" and "\<not> isspace U (last s)"
  shows "sentences U s = [s]"
  using assms by (simp add: sentences_def re_split_sentences_def re_split_no_separator strip_unchanged)

lemma sentence_structure_few:
  "length (sentences U txt) < 3 \<Longrightarrow> sentence_structure U txt t = Inr t"
  by (simp add: sentence_structure_def)

lemma repetitive_phrasing_single:
  "sentences U txt = [s] \<Longrightarrow> repetitive_phrasing U txt t = Inr t"
  by (simp add: repetitive_phrasing_def Let_def)

subsection \<open>The signals on the sample texts\<close>

lemma set_test_text: "set test_text = {116, 101, 115, 32}"
  by (auto simp: test_text_def py_str_def)

lemma lower_test_text: "lower ascii test_text = test_text"
  by (simp add: ascii_def test_text_def py_str_def map_concat ascii_lower_def)

lemma test_text_ends: "test_text \<noteq> []" "hd test_text = 116" "last test_text = 116"
proof -
  have "replicate 49 (py_str ''test '') = py_str ''test '' # replicate 48 (py_str ''test '')"
    using replicate_Suc [of 48 "py_str ''test ''"] by simp
  then have "test_text = py_str ''test '' @ concat (replicate 48 (py_str ''test '')) @ py_str ''test''"
    by (simp add: test_text_def)
  from arg_cong [OF this, of hd] show "hd test_text = 116" by (simp add: py_str_def)
  show "test_text \<noteq> []" "last test_text = 116"
    by (simp_all add: test_text_def py_str_def)
qed

lemma sentences_test_text: "sentences ascii test_text = [test_text]"
  by (rule sentences_single)
    (simp_all add: set_test_text test_text_ends sentence_end_def py_str_def ascii_def ascii_isspace_def)

lemma words_test_text: "findall_words ascii (lower ascii test_text) = replicate 50 (py_str ''test'')"
proof -
  have "test_text = concat (replicate 49 (py_str ''test'' @ [32])) @ py_str ''test''"
    by (simp add: test_text_def py_str_def)
  moreover have "runs ascii_isword [] (concat (replicate 49 (py_str ''test'' @ [32])) @ py_str ''test'')
      = replicate (Suc 49) (py_str ''test'')"
    by (rule runs_repeated_word) (simp_all add: py_str_def ascii_isword_def)
  ultimately show ?thesis
    unfolding findall_words_def lower_test_text by (simp add: ascii_def)
qed

lemma test_text_signal1: "sentence_structure ascii test_text t = Inr t"
  by (simp add: sentence_structure_few sentences_test_text)

lemma test_text_signal2: "transition_phrases ascii test_text t = Inr t"
  by (simp add: transition_phrases_def formal_transitions_def lower_test_text
      contains_false set_test_text py_str_def)

lemma test_text_signal3: "repetitive_phrasing ascii test_text t = Inr t"
  using sentences_test_text by (rule repetitive_phrasing_single)

lemma test_text_signal4: "hedging ascii test_text t = Inr t"
  by (simp add: hedging_def hedging_words_def lower_test_text
      count_zero set_test_text py_str_def)

lemma test_text_signal5:
  "pronouns ascii test_text t = Inr (t\<lparr>ai_indicators := ai_indicators t + 1\<rparr>)"
  by (simp add: pronouns_def lower_test_text count_zero set_test_text py_str_def length_test_text)

lemma test_text_signal6:
  "contraction_use ascii test_text t = Inr (t\<lparr>ai_indicators := ai_indicators t + 1\<rparr>)"
  by (simp add: contraction_use_def contractions_def count_zero set_test_text py_str_def
      length_test_text)

lemma test_text_signal7: "excitement ascii test_text t = Inr t"
  by (simp add: excitement_def count_zero set_test_text py_str_def)

lemma test_text_signal8: "list_formatting ascii test_text t = Inr t"
  by (simp add: list_formatting_def newline_def count_zero set_test_text py_str_def)

lemma test_text_signal9: "grammar_errors ascii test_text t = Inr t"
  by (simp add: grammar_errors_def lower_test_text contains_false set_test_text py_str_def)

lemma test_text_signal10:
  "vocabulary_diversity ascii test_text t = Inr (t\<lparr>ai_indicators := ai_indicators t + 1\<rparr>)"
  by (simp add: vocabulary_diversity_def words_test_text truediv_def)

lemma test_text_tallies:
  "text_tallies ascii test_text = Inr \<lparr>ai_indicators = 3, human_indicators = 0\<rparr>"
  by (simp add: text_tallies_def text_signals_def test_text_signal1 test_text_signal2
      test_text_signal3 test_text_signal4 test_text_signal5 test_text_signal6 test_text_signal7
      test_text_signal8 test_text_signal9 test_text_signal10)

lemma set_fifty_commas: "set fifty_commas = {44}"
  by (auto simp: fifty_commas_def py_str_def)

lemma lower_fifty_commas: "lower ascii fifty_commas = fifty_commas"
  by (simp add: ascii_def fifty_commas_def py_str_def map_concat ascii_lower_def)

lemma fifty_commas_ends: "fifty_commas \<noteq> []" "hd fifty_commas = 44" "last fifty_commas = 44"
proof -
  show ne: "fifty_commas \<noteq> []" using length_fifty_commas by auto
  from hd_in_set [OF ne] show "hd fifty_commas = 44" by (simp add: set_fifty_commas)
  from last_in_set [OF ne] show "last fifty_commas = 44" by (simp add: set_fifty_commas)
qed

lemma sentences_fifty_commas: "sentences ascii fifty_commas = [fifty_commas]"
  by (rule sentences_single)
    (simp_all add: set_fifty_commas fifty_commas_ends sentence_end_def py_str_def ascii_def
      ascii_isspace_def)

lemma words_fifty_commas: "findall_words ascii (lower ascii fifty_commas) = []"
  unfolding findall_words_def lower_fifty_commas
  by (rule runs_none) (simp add: set_fifty_commas ascii_def ascii_isword_def)

lemma fifty_commas_tallies:
  "text_tallies ascii fifty_commas = Inr \<lparr>ai_indicators = 0, human_indicators = 0\<rparr>"
proof -
  have 1: "sentence_structure ascii fifty_commas t = Inr t" for t
    by (simp add: sentence_structure_few sentences_fifty_commas)
  have 2: "transition_phrases ascii fifty_commas t = Inr t" for t
    by (simp add: transition_phrases_def formal_transitions_def lower_fifty_commas
        contains_false set_fifty_commas py_str_def)
  have 3: "repetitive_phrasing ascii fifty_commas t = Inr t" for t
    using sentences_fifty_commas by (rule repetitive_phrasing_single)
  have 4: "hedging ascii fifty_commas t = Inr t" for t
    by (simp add: hedging_def hedging_words_def lower_fifty_commas
        count_zero set_fifty_commas py_str_def)
  have 5: "pronouns ascii fifty_commas t = Inr t" for t
    by (simp add: pronouns_def lower_fifty_commas count_zero set_fifty_commas py_str_def
        length_fifty_commas)
  have 6: "contraction_use ascii fifty_commas t = Inr t" for t
    by (simp add: contraction_use_def contractions_def count_zero set_fifty_commas py_str_def
        length_fifty_commas)
  have 7: "excitement ascii fifty_commas t = Inr t" for t
    by (simp add: excitement_def count_zero set_fifty_commas py_str_def)
  have 8: "list_formatting ascii fifty_commas t = Inr t" for t
    by (simp add: list_formatting_def newline_def count_zero set_fifty_commas py_str_def)
  have 9: "grammar_errors ascii fifty_commas t = Inr t" for t
    by (simp add: grammar_errors_def lower_fifty_commas contains_false set_fifty_commas
        py_str_def)
  have 10: "vocabulary_diversity ascii fifty_commas t = Inr t" for t
    by (simp add: vocabulary_diversity_def words_fifty_commas)
  show ?thesis
    by (simp add: text_tallies_def text_signals_def 1 2 3 4 5 6 7 8 9 10)
qed

lemma set_fifty_dots: "set fifty_dots = {46}"
  by (auto simp: fifty_dots_def py_str_def)

lemma words_fifty_dots: "findall_words ascii (lower ascii fifty_dots) = []"
proof -
  have "lower ascii fifty_dots = fifty_dots"
    by (simp add: ascii_def fifty_dots_def py_str_def map_concat ascii_lower_def)
  then show ?thesis
    unfolding findall_words_def
    by (simp add: runs_none set_fifty_dots ascii_def ascii_isword_def)
qed

subsection \<open>Texts without words, without signals, and the fifty tokens\<close>

lemma run_signals_snoc:
  "run_signals (fs @ [f]) t = (case run_signals fs t of Inl e \<Rightarrow> Inl e | Inr t' \<Rightarrow> f t')"
  by (induction fs arbitrary: t) (auto split: sum.splits)

lemma vocabulary_diversity_no_words:
  "findall_words U (lower U txt) = [] \<Longrightarrow> vocabulary_diversity U txt t = Inr t"
  by (simp add: vocabulary_diversity_def)

text \<open>
  C10 as stated fails on fifty underscores: the text has no letter and no digit, yet
  \<^verbatim>\<open>\w\<close> matches the underscore, so the whole text is one word token, the diversity is
  1/1 and signal 10 adds a human indicator.
\<close>

theorem fifty_underscores_counterexample:
  "50 \<le> length fifty_underscores
   \<and> filter ascii_isalnum fifty_underscores = []
   \<and> findall_words ascii (lower ascii fifty_underscores) = [fifty_underscores]
   \<and> vocabulary_diversity ascii fifty_underscores \<lparr>ai_indicators = 0, human_indicators = 0\<rparr>
        = Inr \<lparr>ai_indicators = 0, human_indicators = 1\<rparr>"
proof -
  have len: "length fifty_underscores = 50"
    by (simp add: fifty_underscores_def py_str_def length_concat sum_list_replicate)
  have elems: "set fifty_underscores = {95}"
    by (auto simp: fifty_underscores_def py_str_def)
  have low: "lower ascii fifty_underscores = fifty_underscores"
    by (simp add: ascii_def fifty_underscores_def py_str_def map_concat ascii_lower_def)
  have ne: "fifty_underscores \<noteq> []"
    using len by auto
  have "runs ascii_isword [] fifty_underscores = [fifty_underscores]"
    using ne by (simp add: runs_all elems ascii_isword_def)
  then have tokens: "findall_words ascii (lower ascii fifty_underscores) = [fifty_underscores]"
    unfolding findall_words_def low by (simp add: ascii_def)
  have "vocabulary_diversity ascii fifty_underscores \<lparr>ai_indicators = 0, human_indicators = 0\<rparr>
      = Inr \<lparr>ai_indicators = 0, human_indicators = 1\<rparr>"
    by (simp add: vocabulary_diversity_def tokens truediv_def)
  moreover have "filter ascii_isalnum fifty_underscores = []"
    by (simp add: filter_empty_conv elems ascii_isalnum_def)
  ultimately show ?thesis
    using len tokens by simp
qed

text \<open>
  C10 (amended). For a text of at least 50 characters whose lower-cased form has no word
  character (no letter, no digit and no underscore: nothing that \<^verbatim>\<open>\w\<close> matches), no word
  token is found, signal 10 leaves both tallies as they are (the division is not reached, so
  it cannot fail), the tallies are those of the first nine signals, and the request is scored
  as usual.
\<close>

theorem no_word_characters:
  assumes "50 \<le> length txt" and "\<forall>c\<in>set (lower U txt). \<not> isword U c"
  shows "findall_words U (lower U txt) = []
    \<and> vocabulary_diversity U txt t = Inr t
    \<and> text_tallies U txt
        = run_signals (butlast (text_signals U txt)) \<lparr>ai_indicators = 0, human_indicators = 0\<rparr>
    \<and> (\<exists>tl p. text_tallies U txt = Inr tl \<and> text_probability tl = Inr p
          \<and> analyze_text U \<lparr>text = txt\<rparr> jitter = Inr (text_response (add_jitter p jitter)))"
proof (intro conjI)
  show none: "findall_words U (lower U txt) = []"
    unfolding findall_words_def using assms(2) by (rule runs_none)
  then show "vocabulary_diversity U txt t = Inr t"
    by (rule vocabulary_diversity_no_words)
  have "text_signals U txt = butlast (text_signals U txt) @ [vocabulary_diversity U txt]"
    by (simp add: text_signals_def)
  then have "text_tallies U txt
      = (case run_signals (butlast (text_signals U txt)) \<lparr>ai_indicators = 0, human_indicators = 0\<rparr>
         of Inl e \<Rightarrow> Inl e | Inr t' \<Rightarrow> vocabulary_diversity U txt t')"
    unfolding text_tallies_def by (metis run_signals_snoc)
  then show "text_tallies U txt
      = run_signals (butlast (text_signals U txt)) \<lparr>ai_indicators = 0, human_indicators = 0\<rparr>"
    by (simp add: vocabulary_diversity_no_words [OF none] split: sum.splits)
  from assms(1) have "50 \<le> length (text \<lparr>text = txt\<rparr>)" by simp
  from analyze_text_scored [OF this, of U jitter]
  show "\<exists>tl p. text_tallies U txt = Inr tl \<and> text_probability tl = Inr p
          \<and> analyze_text U \<lparr>text = txt\<rparr> jitter = Inr (text_response (add_jitter p jitter))"
    by auto
qed

theorem no_word_characters_witness:
  "50 \<le> length punctuation_text
   \<and> filter (isword ascii) (lower ascii punctuation_text) = []
   \<and> findall_words ascii (lower ascii punctuation_text) = []
   \<and> vocabulary_diversity ascii punctuation_text \<lparr>ai_indicators = 1, human_indicators = 2\<rparr>
        = Inr \<lparr>ai_indicators = 1, human_indicators = 2\<rparr>
   \<and> text_tallies ascii punctuation_text
        = run_signals (butlast (text_signals ascii punctuation_text))
            \<lparr>ai_indicators = 0, human_indicators = 0\<rparr>
   \<and> (\<exists>tl p. text_tallies ascii punctuation_text = Inr tl \<and> text_probability tl = Inr p
          \<and> analyze_text ascii \<lparr>text = punctuation_text\<rparr> 0.01
              = Inr (text_response (add_jitter p 0.01)))"
proof -
  have len: "50 \<le> length punctuation_text"
    by (simp add: punctuation_text_def py_str_def length_concat sum_list_replicate)
  have "lower ascii punctuation_text = punctuation_text"
    by (simp add: ascii_def punctuation_text_def py_str_def map_concat ascii_lower_def)
  moreover have "set punctuation_text = {63, 33, 46, 44, 45}"
    by (auto simp: punctuation_text_def py_str_def)
  ultimately have chars: "\<forall>c\<in>set (lower ascii punctuation_text). \<not> isword ascii c"
    by (simp add: ascii_def ascii_isword_def)
  then have "filter (isword ascii) (lower ascii punctuation_text) = []"
    by (simp add: filter_empty_conv)
  with no_word_characters [OF len chars] len
  show ?thesis by blast
qed

lemma label_real: "p \<le> 0.5 \<Longrightarrow> status (text_response p) = py_str ''real''"
  by (simp add: text_response_def label_def)

lemma label_ai_text: "p > 0.5 \<Longrightarrow> status (text_response p) = py_str ''ai-generated''"
  by (simp add: text_response_def label_def)


lemma add_jitter_default: "jitter \<le> 0.05 \<Longrightarrow> add_jitter 0.45 jitter \<le> 0.5"
  unfolding add_jitter_def by (auto simp: min_def max_def)

lemma add_jitter_high: "0.56 \<le> p \<Longrightarrow> - 0.05 \<le> jitter \<Longrightarrow> add_jitter p jitter > 0.5"
  unfolding add_jitter_def by (auto simp: min_def max_def)

text \<open>
  C4. For a text of at least 50 characters on which no signal fires (both tallies are 0) the
  probability before the jitter is exactly 0.45, and for every jitter in \<open>[-0.05, 0.05]\<close>
  the returned label is \<^verbatim>\<open>real\<close>.
\<close>

theorem no_signal_default:
  assumes "50 \<le> length txt"
    and "text_tallies U txt = Inr \<lparr>ai_indicators = 0, human_indicators = 0\<rparr>"
  shows "text_probability \<lparr>ai_indicators = 0, human_indicators = 0\<rparr> = Inr 0.45
    \<and> (\<forall>jitter. - 0.05 \<le> jitter \<and> jitter \<le> 0.05 \<longrightarrow>
          (\<exists>r. analyze_text U \<lparr>text = txt\<rparr> jitter = Inr r \<and> status r = py_str ''real''))"
proof (intro conjI allI impI)
  show p: "text_probability \<lparr>ai_indicators = 0, human_indicators = 0\<rparr> = Inr 0.45"
    by (simp add: text_probability_def)
  fix jitter :: real
  assume "- 0.05 \<le> jitter \<and> jitter \<le> 0.05"
  then have "add_jitter 0.45 jitter \<le> 0.5" by (intro add_jitter_default) simp
  then have "status (text_response (add_jitter 0.45 jitter)) = py_str ''real''"
    by (rule label_real)
  moreover have "analyze_text U \<lparr>text = txt\<rparr> jitter = Inr (text_response (add_jitter 0.45 jitter))"
    using assms p by (simp add: analyze_text_def)
  ultimately show "\<exists>r. analyze_text U \<lparr>text = txt\<rparr> jitter = Inr r \<and> status r = py_str ''real''"
    by simp
qed

theorem no_signal_default_witness:
  "50 \<le> length fifty_commas
   \<and> text_tallies ascii fifty_commas = Inr \<lparr>ai_indicators = 0, human_indicators = 0\<rparr>
   \<and> text_probability \<lparr>ai_indicators = 0, human_indicators = 0\<rparr> = Inr 0.45
   \<and> - 0.05 \<le> (0.05::real) \<and> (0.05::real) \<le> 0.05
   \<and> (\<exists>r. analyze_text ascii \<lparr>text = fifty_commas\<rparr> 0.05 = Inr r \<and> status r = py_str ''real'')"
  using no_signal_default [of fifty_commas ascii]
  by (simp add: length_fifty_commas fifty_commas_tallies)

text \<open>
  C6. For the text of 50 \<^verbatim>\<open>test\<close> tokens separated by single spaces, signal 6 (no
  contraction, more than 150 characters) and signal 10 (diversity 1/50) each add one AI
  indicator, the tallies are 3 AI indicators (signal 5 adds the third) and 0 human indicators,
  and for every jitter in \<open>[-0.05, 0.05]\<close> the label is \<^verbatim>\<open>ai-generated\<close> with a confidence
  between 60 and 90.
\<close>

theorem fifty_test_tokens:
  "contraction_use ascii test_text t = Inr (t\<lparr>ai_indicators := ai_indicators t + 1\<rparr>)
   \<and> vocabulary_diversity ascii test_text t = Inr (t\<lparr>ai_indicators := ai_indicators t + 1\<rparr>)
   \<and> text_tallies ascii test_text = Inr \<lparr>ai_indicators = 3, human_indicators = 0\<rparr>
   \<and> (\<forall>jitter. - 0.05 \<le> jitter \<and> jitter \<le> 0.05 \<longrightarrow>
         (\<exists>r. analyze_text ascii \<lparr>text = test_text\<rparr> jitter = Inr r
            \<and> status r = py_str ''ai-generated''
            \<and> 60 \<le> confidence r \<and> confidence r \<le> 90))"
proof (intro conjI allI impI)
  show "contraction_use ascii test_text t = Inr (t\<lparr>ai_indicators := ai_indicators t + 1\<rparr>)"
    by (rule test_text_signal6)
  show "vocabulary_diversity ascii test_text t = Inr (t\<lparr>ai_indicators := ai_indicators t + 1\<rparr>)"
    by (rule test_text_signal10)
  show "text_tallies ascii test_text = Inr \<lparr>ai_indicators = 3, human_indicators = 0\<rparr>"
    by (rule test_text_tallies)
  fix jitter :: real
  assume j: "- 0.05 \<le> jitter \<and> jitter \<le> 0.05"
  have p: "text_probability \<lparr>ai_indicators = 3, human_indicators = 0\<rparr> = Inr 1"
    by (simp add: text_probability_def truediv_def)
  have "analyze_text ascii \<lparr>text = test_text\<rparr> jitter = Inr (text_response (add_jitter 1 jitter))"
    by (simp add: analyze_text_def length_test_text test_text_tallies p)
  moreover from j have "add_jitter 1 jitter > 0.5"
    by (intro add_jitter_high) simp_all
  then have "status (text_response (add_jitter 1 jitter)) = py_str ''ai-generated''"
    by (rule label_ai_text)
  ultimately show "\<exists>r. analyze_text ascii \<lparr>text = test_text\<rparr> jitter = Inr r
            \<and> status r = py_str ''ai-generated''
            \<and> 60 \<le> confidence r \<and> confidence r \<le> 90"
    using text_response_confidence by simp
qed

theorem fifty_test_tokens_witness:
  "- 0.05 \<le> (- 0.05::real) \<and> (- 0.05::real) \<le> 0.05
   \<and> (\<exists>r. analyze_text ascii \<lparr>text = test_text\<rparr> (- 0.05) = Inr r
         \<and> status r = py_str ''ai-generated''
         \<and> 60 \<le> confidence r \<and> confidence r \<le> 90)"
  using fifty_test_tokens by simp

subsection \<open>The gray square\<close>



lemma is_image_type_png: "is_image_type (content_type (upload ''image/png'' n))"
  by (simp add: upload_def is_image_type_def startswith_def py_str_def)

lemma length_upload: "length (contents (upload ct n)) = n"
  by (simp add: upload_def)


subsection \<open>Uploads above 5 MiB\<close>

text \<open>
  The size check raises inside the \<^verbatim>\<open>try\<close> block, so its exception reaches the handler
  \<^verbatim>\<open>except Exception\<close> and is raised again with the prefix \<^verbatim>\<open>Invalid image file: \<close> put
  before \<^verbatim>\<open>str(e)\<close>. The content type is checked before the size, so only uploads with an
  image content type reach the size check.
\<close>

lemma oversize_image_typed:
  assumes "5 * 1024 * 1024 < length (contents file)" and "is_image_type (content_type file)"
  shows "analyze_image L file jitter =
     Inl (HTTPException 400
           (py_str ''Invalid image file: ''
            @ http_exception_str L 400 (py_str ''File size exceeds 5MB limit'')))"
  using assms by (simp add: analyze_image_def load_image_def file_too_large_def)

lemma wrong_type_rejected:
  "\<not> is_image_type (content_type file) \<Longrightarrow>
     analyze_image L file jitter =
       Inl (HTTPException 400
             (py_str ''Invalid file type. Please upload an image (JPG, PNG, WebP)''))"
  by (simp add: analyze_image_def invalid_file_type_def)

text \<open>
  C1 at an upload of 5 MiB + 1 byte declared as \<^verbatim>\<open>image/png\<close>: the request is rejected
  with status 400 and no score, but the detail is \<^verbatim>\<open>Invalid image file: \<close> followed by
  \<^verbatim>\<open>str(e)\<close> of the size check's exception, whatever the library prints for it; it is not
  \<^verbatim>\<open>File size exceeds 5MB limit\<close>.
\<close>

theorem oversize_png_rejected_with_prefix:
  "analyze_image L (upload ''image/png'' 5242881) jitter =
     Inl (HTTPException 400
           (py_str ''Invalid image file: ''
            @ http_exception_str L 400 (py_str ''File size exceeds 5MB limit'')))
   \<and> analyze_image L (upload ''image/png'' 5242881) jitter
       \<noteq> Inl (HTTPException 400 (py_str ''File size exceeds 5MB limit''))"
proof -
  have "analyze_image L (upload ''image/png'' 5242881) jitter =
     Inl (HTTPException 400
           (py_str ''Invalid image file: ''
            @ http_exception_str L 400 (py_str ''File size exceeds 5MB limit'')))"
    by (rule oversize_image_typed) (simp_all add: length_upload is_image_type_png)
  moreover have "py_str ''Invalid image file: '' @ x \<noteq> py_str ''File size exceeds 5MB limit''"
    for x
    by (simp add: py_str_def)
  ultimately show ?thesis by simp
qed

text \<open>
  With an image content type and a library that prints the exception as
  \<^verbatim>\<open>"400: <detail>"\<close>, the message of the same upload carries the handler's prefix.
\<close>

lemma oversize_png_detail:
  "analyze_image (decodes_to gray_image) (upload ''image/png'' 5242881) 0
     = Inl (HTTPException 400 (py_str ''Invalid image file: 400: File size exceeds 5MB limit''))"
proof -
  have "str_nat 400 = py_str ''400''"
    by (simp add: py_str_def)
  then show ?thesis
    using oversize_image_typed [of "upload ''image/png'' 5242881" "decodes_to gray_image" 0]
    by (simp add: length_upload is_image_type_png decodes_to_def py_str_def)
qed

subsection \<open>The string functions on small inputs\<close>

lemma count_examples:
  "count (py_str ''aaaaa'') (py_str ''aa'') = 2"
  "count (py_str '' may may may '') (py_str '' may '') = 2"
  "count (py_str ''don't, it's'') (py_str '''s'') = 1"
  by (simp_all add: count_def startswith_def py_str_def)

lemma contains_examples:
  "contains (py_str ''go there now'') (py_str '' there '')"
  "\<not> contains (py_str ''there'') (py_str '' there '')"
  by (simp_all add: startswith_def py_str_def)

lemma re_split_example:
  "re_split_sentences (py_str ''.a..b! c?'') = map py_str ['''', ''a'', ''b'', '' c'', '''']"
  by (simp add: re_split_sentences_def sentence_end_def py_str_def)

lemma sentences_example:
  "sentences ascii (py_str ''Hi there.  Is it ok?! '') = map py_str [''Hi there'', ''Is it ok'']"
  by (simp add: sentences_def re_split_sentences_def sentence_end_def strip_def py_str_def
      ascii_def ascii_isspace_def)

lemma split_example:
  "split ascii (py_str ''  ab  cd e '') = map py_str [''ab'', ''cd'', ''e'']"
  by (simp add: split_def py_str_def ascii_def ascii_isspace_def)

lemma findall_words_example:
  "findall_words ascii (py_str ''it's a_b, c-3'') = map py_str [''it'', ''s'', ''a_b'', ''c'', ''3'']"
  by (simp add: findall_words_def py_str_def ascii_def ascii_isword_def)

subsection \<open>A worked example: the ten signals on a short opinion\<close>

text \<open>
  Five sentences of 5, 5, 4, 2 and 10 words (variance 6.96), three of them opening with
  \<^verbatim>\<open>i think\<close>; three \<^verbatim>\<open>" i "\<close> and one \<^verbatim>\<open>" my "\<close>; the contractions \<^verbatim>\<open>n't\<close> and \<^verbatim>\<open>'s\<close>;
  one \<^verbatim>\<open>!\<close> and one \<^verbatim>\<open>?\<close>; \<^verbatim>\<open>" there "\<close>; 19 distinct words among 28.
\<close>

lemmas string_defs = count_def startswith_def py_str_def ascii_def ascii_isspace_def
  ascii_isword_def ascii_lower_def sentences_def re_split_sentences_def sentence_end_def
  strip_def split_def findall_words_def

lemma opinion_sentences:
  "sentences ascii opinion_text = map py_str
     [''I think this is fine'', ''I think that is fine'', ''I think it's ok'', ''Don't you'',
      ''Well there it is, my friend, and I may go'']"
  by (simp add: opinion_text_def string_defs)

lemma opinion_signal1: "sentence_structure ascii opinion_text t = Inr (t\<lparr>ai_indicators := ai_indicators t + 2\<rparr>)"
  by (simp add: sentence_structure_def opinion_sentences truediv_def Let_def)
    (simp add: string_defs power2_eq_square)

lemma opinion_signal2: "transition_phrases ascii opinion_text t = Inr t"
  by (simp add: transition_phrases_def formal_transitions_def opinion_text_def string_defs)

lemma opinion_signal3: "repetitive_phrasing ascii opinion_text t = Inr (t\<lparr>ai_indicators := ai_indicators t + 2\<rparr>)"
  by (simp add: repetitive_phrasing_def opinion_sentences)
    (simp add: string_defs AList.update_def)

lemma opinion_signal4: "hedging ascii opinion_text t = Inr t"
  by (simp add: hedging_def hedging_words_def opinion_text_def string_defs)

lemma opinion_signal5: "pronouns ascii opinion_text t = Inr (t\<lparr>human_indicators := human_indicators t + 2\<rparr>)"
  by (simp add: pronouns_def opinion_text_def string_defs)

lemma opinion_signal6: "contraction_use ascii opinion_text t = Inr (t\<lparr>human_indicators := human_indicators t + 2\<rparr>)"
  by (simp add: contraction_use_def contractions_def opinion_text_def string_defs)

lemma opinion_signal7: "excitement ascii opinion_text t = Inr (t\<lparr>human_indicators := human_indicators t + 1\<rparr>)"
  by (simp add: excitement_def opinion_text_def string_defs)

lemma opinion_signal8: "list_formatting ascii opinion_text t = Inr t"
  by (simp add: list_formatting_def newline_def opinion_text_def string_defs)

lemma opinion_signal9: "grammar_errors ascii opinion_text t = Inr (t\<lparr>human_indicators := human_indicators t + 1\<rparr>)"
  by (simp add: grammar_errors_def opinion_text_def string_defs)

lemma opinion_signal10: "vocabulary_diversity ascii opinion_text t = Inr t"
  by (simp add: vocabulary_diversity_def opinion_text_def string_defs truediv_def card_insert_if)

lemma opinion_tallies:
  "text_tallies ascii opinion_text = Inr \<lparr>ai_indicators = 4, human_indicators = 6\<rparr>"
  by (simp add: text_tallies_def text_signals_def opinion_signal1 opinion_signal2 opinion_signal3 opinion_signal4 opinion_signal5 opinion_signal6 opinion_signal7 opinion_signal8 opinion_signal9 opinion_signal10)

end
